theory Spec2Isabelle
  imports Main "HOL-Library.Word" "HOL-Library.Multiset"
begin

section \<open>Data model of get-recursive-disk-size.cpp\<close>

text \<open>
  \<^verbatim>\<open>size_t\<close> is modelled as a 64-bit word: \<open>+\<close> wraps around and \<open>\<le>\<close> is the
  unsigned comparison, as in the source on an LP64 platform.  Paths are strings.
  Every \<^verbatim>\<open>std::filesystem\<close> call of the source throws one kind of exception,
  \<^verbatim>\<open>filesystem_error\<close> (the specification's IOError).
\<close>

type_synonym size_t = "64 word"
type_synonym path = string

datatype error = filesystem_error

text \<open>\<^verbatim>\<open>struct DirectoryInfo { size_t diskSpaceUsage; size_t lastModified; }\<close>\<close>

record DirectoryInfo =
  diskSpaceUsage :: size_t
  lastModified :: size_t

subsection \<open>The filesystem the program reads\<close>

text \<open>
  The program only reads the filesystem, through four library calls:
  \<^verbatim>\<open>fs::last_write_time\<close>, \<^verbatim>\<open>fs::recursive_directory_iterator\<close>,
  \<^verbatim>\<open>directory_entry::is_regular_file\<close> and \<^verbatim>\<open>fs::file_size\<close>.  A snapshot of the
  filesystem is a finite tree per path:
  \<^item> a regular file carries its byte length, or \<open>None\<close> when it cannot be stat'd
    (permission denied, deleted since it was listed): the loop body throws at
    this entry;
  \<^item> a directory carries its named entries, or \<open>None\<close> when it cannot be listed;
  \<^item> a symbolic link carries the node it points to, or \<open>None\<close> when it dangles;
  \<^item> block and character devices, fifos and sockets carry nothing.
\<close>

datatype file_type = block | character | fifo | socket

datatype fs_node =
    Regular "size_t option"
  | Directory "(string \<times> fs_node) list option"
  | Symlink "fs_node option"
  | Special file_type

text \<open>
  What lives at a path: the tree, and its last write time as the signed tick count
  that \<^verbatim>\<open>time_since_epoch().count()\<close> yields: negative before the epoch of the
  file clock, and 64 bits or wider as the implementation has it (\<open>None\<close> when
  \<^verbatim>\<open>fs::last_write_time\<close> throws although the path exists).  A path that does not
  exist is mapped to \<open>None\<close>.
\<close>

record fs_object =
  mtime :: "int option"
  content :: fs_node

type_synonym filesystem = "path \<Rightarrow> fs_object option"

subsection \<open>The library calls\<close>

text \<open>
  \<^verbatim>\<open>fs::last_write_time(p).time_since_epoch().count()\<close>: the signed tick count.
\<close>

definition last_write_time :: "filesystem \<Rightarrow> path \<Rightarrow> error + int" where
  "last_write_time fs p =
     (case fs p of
        None \<Rightarrow> Inl filesystem_error
      | Some obj \<Rightarrow> (case mtime obj of None \<Rightarrow> Inl filesystem_error | Some t \<Rightarrow> Inr t))"

text \<open>
  The implicit conversion of lines 38 and 39, where the signed count initialises a
  \<^verbatim>\<open>size_t\<close>: the value modulo \<open>2 ^ 64\<close>, so that tick \<open>-1\<close> becomes
  \<open>2 ^ 64 - 1\<close>.
\<close>

definition to_size_t :: "int \<Rightarrow> size_t" where
  "to_size_t ticks = word_of_int ticks"

text \<open>
  \<^verbatim>\<open>fs::status\<close> follows symbolic links; a dangling link has no status
  (\<^verbatim>\<open>file_type::not_found\<close>).
\<close>

fun status :: "fs_node \<Rightarrow> fs_node option" where
  "status (Symlink None) = None"
| "status (Symlink (Some n)) = status n"
| "status n = Some n"

text \<open>
  \<^verbatim>\<open>directory_entry::is_regular_file()\<close> is \<^verbatim>\<open>fs::is_regular_file(status())\<close>: it
  looks through symbolic links.
\<close>

definition is_regular_file :: "fs_node \<Rightarrow> bool" where
  "is_regular_file n = (case status n of Some (Regular _) \<Rightarrow> True | _ \<Rightarrow> False)"

text \<open>
  \<^verbatim>\<open>fs::file_size(p)\<close> stats the path, following symbolic links, and throws unless it
  finds a regular file whose size can be read.
\<close>

definition file_size :: "fs_node \<Rightarrow> error + size_t" where
  "file_size n =
     (case status n of Some (Regular (Some sz)) \<Rightarrow> Inr sz | _ \<Rightarrow> Inl filesystem_error)"

text \<open>
  \<^verbatim>\<open>fs::recursive_directory_iterator\<close> with its default options: the entries of a
  directory in listing order, each followed by what lies beneath it when it is a
  directory itself (a symbolic link to a directory is not descended into).  The
  iteration is lazy, so a directory that cannot be listed shows as an error item
  at the point where the iterator would enter it; the loop never gets past it.
\<close>

fun beneath :: "fs_node \<Rightarrow> (error + fs_node) list"
  and listing :: "(string \<times> fs_node) list \<Rightarrow> (error + fs_node) list" where
  "beneath (Directory None) = [Inl filesystem_error]"
| "beneath (Directory (Some es)) = listing es"
| "beneath (Regular _) = []"
| "beneath (Symlink _) = []"
| "beneath (Special _) = []"
| "listing [] = []"
| "listing (e # es) = Inr (snd e) # beneath (snd e) @ listing es"

text \<open>
  Constructing the iterator opens the path, following symbolic links, and throws
  when it is missing, is not a directory or cannot be listed.
\<close>

definition recursive_directory_iterator ::
    "filesystem \<Rightarrow> path \<Rightarrow> error + (error + fs_node) list" where
  "recursive_directory_iterator fs p =
     (case fs p of
        None \<Rightarrow> Inl filesystem_error
      | Some obj \<Rightarrow>
          (case status (content obj) of
             Some (Directory (Some es)) \<Rightarrow> Inr (listing es)
           | _ \<Rightarrow> Inl filesystem_error))"

section \<open>calculateDiskSpace\<close>

text \<open>
  The range-for loop of lines 24 to 28 with its accumulator \<^verbatim>\<open>totalSpaceUsed\<close>:
  an exception thrown by the iterator or by \<^verbatim>\<open>file_size\<close> leaves the function.
\<close>

fun calculateDiskSpace_loop :: "size_t \<Rightarrow> (error + fs_node) list \<Rightarrow> error + size_t" where
  "calculateDiskSpace_loop totalSpaceUsed [] = Inr totalSpaceUsed"
| "calculateDiskSpace_loop totalSpaceUsed (Inl e # rest) = Inl e"
| "calculateDiskSpace_loop totalSpaceUsed (Inr entry # rest) =
     (if is_regular_file entry
      then (case file_size entry of
              Inl e \<Rightarrow> Inl e
            | Inr sz \<Rightarrow> calculateDiskSpace_loop (totalSpaceUsed + sz) rest)
      else calculateDiskSpace_loop totalSpaceUsed rest)"

definition calculateDiskSpace :: "filesystem \<Rightarrow> path \<Rightarrow> error + size_t" where
  "calculateDiskSpace fs directory =
     (case recursive_directory_iterator fs directory of
        Inl e \<Rightarrow> Inl e
      | Inr entries \<Rightarrow> calculateDiskSpace_loop 0 entries)"

section \<open>getDiskSpaceUsage\<close>

text \<open>
  The global \<^verbatim>\<open>std::unordered_map<fs::path, DirectoryInfo> cache\<close> is a map from
  paths to entries.  Beside it the program state carries \<open>walks\<close>, a counter that is
  not in the source: it counts the calls of \<^verbatim>\<open>calculateDiskSpace\<close>, so that
  "the walk ran" is a statement about the state.  The mutex of line 36 serialises
  the calls; one call is modelled as one step of the state.
\<close>

record state =
  cache :: "path \<rightharpoonup> DirectoryInfo"
  walks :: nat

text \<open>
  The filesystem can change while the function runs, so a call takes two
  snapshots: \<open>fs\<close> as it is when line 38 reads the timestamp and \<open>fs'\<close> as it is
  when line 52 walks the directory.  A caller for whom nothing changes passes the
  same snapshot twice.

  The local \<^verbatim>\<open>lastModified\<close> is a \<^verbatim>\<open>size_t\<close>: it holds the converted tick count,
  and it is this unsigned value that line 45 compares and line 55 stores.

  The inner case is the lookup of lines 42 to 49, which returns the cached size
  from inside the two nested tests; every other way through it falls to line 52.
\<close>

definition getDiskSpaceUsage ::
    "filesystem \<Rightarrow> filesystem \<Rightarrow> state \<Rightarrow> path \<Rightarrow> (error + size_t) \<times> state" where
  "getDiskSpaceUsage fs fs' s directory =
     (case last_write_time fs directory of
        Inl e \<Rightarrow> (Inl e, s)
      | Inr ticks \<Rightarrow>
          (let lastModified' = to_size_t ticks in
           (case (case cache s directory of
                    Some it \<Rightarrow>
                      if lastModified' \<le> lastModified it then Some (diskSpaceUsage it)
                      else None
                  | None \<Rightarrow> None) of
              Some cached \<Rightarrow> (Inr cached, s)
            | None \<Rightarrow>
                (case calculateDiskSpace fs' directory of
                   Inl e \<Rightarrow> (Inl e, s\<lparr>walks := Suc (walks s)\<rparr>)
                 | Inr diskSpaceUsage' \<Rightarrow>
                     (Inr diskSpaceUsage',
                      s\<lparr>cache := (cache s)(directory \<mapsto>
                           \<lparr>diskSpaceUsage = diskSpaceUsage', lastModified = lastModified'\<rparr>),
                        walks := Suc (walks s)\<rparr>)))))"

section \<open>main\<close>

text \<open>
  What a run of the program does, in order: text inserted into \<^verbatim>\<open>std::cerr\<close> and
  \<^verbatim>\<open>std::cout\<close> (a path, a byte count and an elapsed time are kept as such rather
  than formatted) and the sleep between the two calls.
\<close>

datatype event =
    Cerr string
  | Cout string
  | Cout_path path
  | Cout_size size_t
  | Cout_elapsed
  | Sleep size_t

text \<open>
  A run ends by returning from \<^verbatim>\<open>main\<close>, or in \<^verbatim>\<open>std::terminate\<close> when an
  exception reaches the top.  With \<^verbatim>\<open>argc == 0\<close> the usage line streams the null
  pointer \<^verbatim>\<open>argv[0]\<close>, which the language leaves undefined.
\<close>

datatype ending = Return int | Terminate | Undefined_behaviour

text \<open>
  \<^verbatim>\<open>std::stol\<close> with the conversion of its result to \<^verbatim>\<open>size_t\<close> is a parameter
  (\<open>None\<close> when it throws), as are the filesystem snapshots of the two calls.
  The cache starts empty.
\<close>

definition initial_state :: state where
  "initial_state = \<lparr>cache = Map.empty, walks = 0\<rparr>"

definition main ::
    "(string \<Rightarrow> size_t option) \<Rightarrow> filesystem \<times> filesystem \<Rightarrow> filesystem \<times> filesystem \<Rightarrow>
     string list \<Rightarrow> ending \<times> event list" where
  "main stol snap1 snap2 argv =
     (if length argv < 2
      then (case argv of
              [] \<Rightarrow> (Undefined_behaviour, [])
            | prog # _ \<Rightarrow>
                (Return 1, [Cerr ''Usage: '', Cerr prog, Cerr '' <directory_path>\<newline>'']))
      else
        let directory = argv ! 1 in
        (case (if length argv = 3 then stol (argv ! 2) else Some 0) of
           None \<Rightarrow> (Terminate, [])
         | Some sleepInSeconds \<Rightarrow>
             let out1 = [Cout ''Disk space usage for '', Cout_path directory, Cout '': ''] in
             (case getDiskSpaceUsage (fst snap1) (snd snap1) initial_state directory of
                (Inl e, s1) \<Rightarrow> (Terminate, out1)
              | (Inr usage1, s1) \<Rightarrow>
                  let out2 = out1 @
                    [Cout_size usage1, Cout '' bytes\<newline>'',
                     Cout ''Time elapsed for first call: '', Cout_elapsed, Cout ''s\<newline>'',
                     Sleep sleepInSeconds,
                     Cout ''Disk space usage for '', Cout_path directory,
                     Cout '' (after modification): ''] in
                  (case getDiskSpaceUsage (fst snap2) (snd snap2) s1 directory of
                     (Inl e, s2) \<Rightarrow> (Terminate, out2)
                   | (Inr usage2, s2) \<Rightarrow>
                       (Return 0, out2 @
                         [Cout_size usage2, Cout '' bytes\<newline>'',
                          Cout ''Time elapsed for second call: '', Cout_elapsed,
                          Cout ''s\<newline>''])))))"

section \<open>Notions used to state the properties\<close>

text \<open>
  A tree is readable when the walk meets no error in it: every directory can be
  listed and \<^verbatim>\<open>file_size\<close> succeeds on every entry that
  \<^verbatim>\<open>is_regular_file\<close> accepts.
\<close>

fun readable :: "fs_node \<Rightarrow> bool"
  and readable_entries :: "(string \<times> fs_node) list \<Rightarrow> bool" where
  "readable (Regular sz) = (sz \<noteq> None)"
| "readable (Directory None) = False"
| "readable (Directory (Some es)) = readable_entries es"
| "readable (Symlink t) = (status (Symlink t) \<noteq> Some (Regular None))"
| "readable (Special k) = True"
| "readable_entries [] = True"
| "readable_entries (e # es) = (readable (snd e) \<and> readable_entries es)"

text \<open>
  The total as the specification words it for \<open>computeSize\<close>: the byte lengths of
  the regular files reachable through directories; directories, symbolic links,
  devices and every other entry count 0.
\<close>

fun spec_computeSize :: "fs_node \<Rightarrow> nat"
  and spec_computeSize_entries :: "(string \<times> fs_node) list \<Rightarrow> nat" where
  "spec_computeSize (Regular None) = 0"
| "spec_computeSize (Regular (Some sz)) = unat sz"
| "spec_computeSize (Directory None) = 0"
| "spec_computeSize (Directory (Some es)) = spec_computeSize_entries es"
| "spec_computeSize (Symlink t) = 0"
| "spec_computeSize (Special k) = 0"
| "spec_computeSize_entries [] = 0"
| "spec_computeSize_entries (e # es) = spec_computeSize (snd e) + spec_computeSize_entries es"

text \<open>
  The same total, except that a symbolic link counts the byte length of the regular
  file it resolves to (and 0 when it resolves to anything else or dangles).
\<close>

fun followed_bytes :: "fs_node \<Rightarrow> nat"
  and followed_bytes_entries :: "(string \<times> fs_node) list \<Rightarrow> nat" where
  "followed_bytes (Regular None) = 0"
| "followed_bytes (Regular (Some sz)) = unat sz"
| "followed_bytes (Directory None) = 0"
| "followed_bytes (Directory (Some es)) = followed_bytes_entries es"
| "followed_bytes (Symlink t) =
     (case status (Symlink t) of Some (Regular (Some sz)) \<Rightarrow> unat sz | _ \<Rightarrow> 0)"
| "followed_bytes (Special k) = 0"
| "followed_bytes_entries [] = 0"
| "followed_bytes_entries (e # es) = followed_bytes (snd e) + followed_bytes_entries es"

text \<open>The results of \<open>n\<close> successive calls on one path while the filesystem stays as it is.\<close>

fun successive_calls :: "nat \<Rightarrow> filesystem \<Rightarrow> state \<Rightarrow> path \<Rightarrow> (error + size_t) list" where
  "successive_calls 0 fs s directory = []"
| "successive_calls (Suc n) fs s directory =
     (case getDiskSpaceUsage fs fs s directory of
        (r, s') \<Rightarrow> r # successive_calls n fs s' directory)"

subsection \<open>Concrete filesystems\<close>

text \<open>A filesystem holding one object, at one path.\<close>

definition single :: "path \<Rightarrow> int option \<Rightarrow> fs_node \<Rightarrow> filesystem" where
  "single p t n = (\<lambda>q. if q = p then Some \<lparr>mtime = t, content = n\<rparr> else None)"

text \<open>
  The scenario of the specification: files of 100, 250 and 0 bytes and a
  subdirectory holding a file of 50 bytes.
\<close>

definition scenario_tree :: fs_node where
  "scenario_tree =
     Directory (Some
       [(''a'', Regular (Some 100)), (''b'', Regular (Some 250)), (''c'', Regular (Some 0)),
        (''sub'', Directory (Some [(''d'', Regular (Some 50))]))])"

text \<open>A directory whose only entry is a symbolic link to a regular file of 7 bytes.\<close>

definition link_tree :: fs_node where
  "link_tree = Directory (Some [(''l'', Symlink (Some (Regular (Some 7))))])"

text \<open>
  A directory with a device, a fifo, a dangling link, a link to a directory and a
  link to a file of 7 bytes beside a file of 5 bytes and a subdirectory.
\<close>

definition mixed_tree :: fs_node where
  "mixed_tree =
     Directory (Some
       [(''dev'', Special character), (''pipe'', Special fifo), (''gone'', Symlink None),
        (''dl'', Symlink (Some (Directory (Some [(''x'', Regular (Some 1000))])))),
        (''fl'', Symlink (Some (Regular (Some 7)))),
        (''f'', Regular (Some 5)),
        (''sub'', Directory (Some [(''g'', Regular (Some 30)), (''empty'', Directory (Some []))]))])"

text \<open>A directory with a subdirectory that cannot be listed.\<close>

definition locked_tree :: fs_node where
  "locked_tree = Directory (Some [(''f'', Regular (Some 5)), (''priv'', Directory None)])"

text \<open>A state whose cache holds one entry and which has walked \<open>k\<close> times so far.\<close>

definition seeded :: "path \<Rightarrow> size_t \<Rightarrow> size_t \<Rightarrow> nat \<Rightarrow> state" where
  "seeded p sz t k =
     \<lparr>cache = [p \<mapsto> \<lparr>diskSpaceUsage = sz, lastModified = t\<rparr>], walks = k\<rparr>"

section \<open>The walk\<close>

lemmas walk_defs =
  calculateDiskSpace_def recursive_directory_iterator_def is_regular_file_def file_size_def

lemma loop_walk:
  "readable n \<longrightarrow> (\<forall>acc rest. calculateDiskSpace_loop acc (Inr n # beneath n @ rest)
      = calculateDiskSpace_loop (acc + of_nat (followed_bytes n)) rest)"
  "readable_entries es \<longrightarrow> (\<forall>acc rest. calculateDiskSpace_loop acc (listing es @ rest)
      = calculateDiskSpace_loop (acc + of_nat (followed_bytes_entries es)) rest)"
proof (induction n and es rule: beneath_listing.induct)
  case (3 sz)
  then show ?case by (cases sz) (auto simp add: is_regular_file_def file_size_def)
next
  case (4 t)
  then show ?case
    by (auto simp add: is_regular_file_def file_size_def split: option.splits fs_node.splits)
next
  case (7 e es)
  then show ?case by (simp add: add.assoc)
qed (simp_all add: is_regular_file_def)

lemma calculateDiskSpace_readable:
  assumes "fs directory = Some obj" and "status (content obj) = Some (Directory (Some es))"
    and "readable_entries es"
  shows "calculateDiskSpace fs directory = Inr (of_nat (followed_bytes_entries es))"
proof -
  have "calculateDiskSpace fs directory = calculateDiskSpace_loop 0 (listing es @ [])"
    using assms(1,2) by (simp add: calculateDiskSpace_def recursive_directory_iterator_def)
  also have "\<dots> = calculateDiskSpace_loop (0 + of_nat (followed_bytes_entries es)) []"
    using loop_walk(2) [of es] assms(3) by blast
  finally show ?thesis by simp
qed

lemma followed_bytes_entries_mset:
  "followed_bytes_entries es = sum_mset (image_mset followed_bytes (mset (map snd es)))"
  by (induction es) simp_all

lemma readable_entries_mset:
  "readable_entries es = (\<forall>n \<in># mset (map snd es). readable n)"
  by (induction es) auto

lemma walk_scenario: "calculateDiskSpace (single ''d'' t scenario_tree) ''d'' = Inr 400"
  by (simp add: walk_defs single_def scenario_tree_def)

lemma walk_mixed: "calculateDiskSpace (single ''d'' t mixed_tree) ''d'' = Inr 42"
  by (simp add: walk_defs single_def mixed_tree_def)

lemma walk_locked: "calculateDiskSpace (single ''d'' t locked_tree) ''d'' = Inl filesystem_error"
  by (simp add: walk_defs single_def locked_tree_def)

lemma stat_single: "last_write_time (single ''d'' (Some t) n) ''d'' = Inr t"
  by (simp add: last_write_time_def single_def)

text \<open>
  C4, as the specification states it, fails: a symbolic link to a regular file of 7
  bytes is an entry that \<^verbatim>\<open>is_regular_file\<close> accepts, and \<^verbatim>\<open>file_size\<close> reads the
  7 bytes through the link, while the specification counts 0 for a symbolic link.
\<close>

theorem calculateDiskSpace_counts_linked_file:
  "readable link_tree \<and> spec_computeSize link_tree = 0
     \<and> calculateDiskSpace (single ''d'' (Some 0) link_tree) ''d'' = Inr 7"
  by (simp add: link_tree_def single_def walk_defs)

text \<open>
  C4, amended: for every readable directory tree \<^verbatim>\<open>calculateDiskSpace\<close> returns the
  sum, in \<^verbatim>\<open>size_t\<close> arithmetic (modulo \<open>2 ^ 64\<close>), of the byte lengths of the
  entries reachable under the path that are regular files or symbolic links
  resolving to regular files; directories, devices, fifos, sockets and symbolic
  links that dangle or resolve to anything else contribute 0, and only
  directories proper (not symbolic links to directories) are descended into.
\<close>

theorem calculateDiskSpace_sums_followed_regular_files:
  assumes "fs directory = Some obj" and "status (content obj) = Some (Directory (Some es))"
    and "readable_entries es"
  shows "\<exists>total. calculateDiskSpace fs directory = Inr total
           \<and> unat total = followed_bytes_entries es mod 2 ^ 64"
  using calculateDiskSpace_readable [of fs directory obj es] assms by (simp add: unat_of_nat)

text \<open>
  The amended C4 on the mixed directory: the file of 5 bytes, the link to a file
  of 7 bytes and the file of 30 bytes in the subdirectory make 42; the device, the
  fifo, the dangling link and the link to a directory holding 1000 bytes add
  nothing.
\<close>

theorem calculateDiskSpace_sums_followed_regular_files_witness:
  "\<exists>total. calculateDiskSpace (single ''d'' (Some 0) mixed_tree) ''d'' = Inr total
     \<and> unat total = 42"
proof -
  have a: "single ''d'' (Some 0) mixed_tree ''d'' = Some \<lparr>mtime = Some 0, content = mixed_tree\<rparr>"
    by (simp add: single_def)
  have b: "status (content \<lparr>mtime = Some 0, content = mixed_tree\<rparr>) = Some (Directory (Some
       [(''dev'', Special character), (''pipe'', Special fifo), (''gone'', Symlink None),
        (''dl'', Symlink (Some (Directory (Some [(''x'', Regular (Some 1000))])))),
        (''fl'', Symlink (Some (Regular (Some 7)))),
        (''f'', Regular (Some 5)),
        (''sub'', Directory (Some [(''g'', Regular (Some 30)), (''empty'', Directory (Some []))]))]))"
    by (simp add: mixed_tree_def)
  show ?thesis
    using calculateDiskSpace_sums_followed_regular_files
      [of "single ''d'' (Some 0) mixed_tree" "''d''", OF a b]
    by simp
qed

section \<open>The timestamp conversion\<close>

lemma uint_to_size_t: "uint (to_size_t a) = a mod 18446744073709551616"
  by (simp add: to_size_t_def uint_word_of_int)

lemma mod_before_epoch:
  assumes "- 9223372036854775808 \<le> a" and "a < 0"
  shows "a mod 18446744073709551616 = a + (18446744073709551616 :: int)"
proof -
  have "a mod 18446744073709551616 = (a + 18446744073709551616) mod 18446744073709551616"
    by simp
  also have "\<dots> = a + 18446744073709551616"
    using assms by (intro mod_pos_pos_trivial) simp_all
  finally show ?thesis .
qed

lemma mod_after_epoch:
  assumes "0 \<le> a" and "a < 9223372036854775808"
  shows "a mod 18446744073709551616 = (a :: int)"
  using assms by (intro mod_pos_pos_trivial) simp_all

text \<open>
  For 64-bit tick counts on one side of the epoch the unsigned order of the
  converted values is the order of the timestamps.
\<close>

lemma to_size_t_same_side:
  assumes "- (2 ^ 63) \<le> a" and "a < 2 ^ 63" and "- (2 ^ 63) \<le> b" and "b < 2 ^ 63"
    and "(a < 0) = (b < 0)"
  shows "(to_size_t a \<le> to_size_t b) = (a \<le> b)"
proof (cases "a < 0")
  case True
  then have "b < 0" using assms(5) by simp
  then show ?thesis
    using True assms(1,3) by (simp add: word_le_def uint_to_size_t mod_before_epoch)
next
  case False
  then have "\<not> b < 0" using assms(5) by simp
  then show ?thesis
    using False assms(2,4) by (simp add: word_le_def uint_to_size_t mod_after_epoch)
qed

text \<open>
  Across the epoch it is the reverse: every timestamp before the epoch converts to
  a value above every timestamp at or after it.
\<close>

lemma to_size_t_across_epoch:
  assumes "- (2 ^ 63) \<le> a" and "a < 0" and "0 \<le> b" and "b < 2 ^ 63"
  shows "to_size_t b < to_size_t a"
  using assms by (simp add: word_less_def uint_to_size_t mod_before_epoch mod_after_epoch)

lemma to_size_t_minus_1: "to_size_t (- 1) = 18446744073709551615"
  by (simp add: to_size_t_def)

lemma to_size_t_numeral: "to_size_t (numeral k) = numeral k"
  by (simp add: to_size_t_def)

lemmas call_simps =
  getDiskSpaceUsage_def Let_def stat_single to_size_t_minus_1 to_size_t_numeral
  walk_scenario walk_mixed walk_locked seeded_def initial_state_def

section \<open>The cache policy\<close>

text \<open>
  What lines 42 to 57 do, on the converted values: with an entry whose stored
  value is not below the converted current tick count the cached size comes back
  and the state stays as it is, whatever the walk would have met.
\<close>

lemma getDiskSpaceUsage_fast_path:
  assumes "last_write_time fs directory = Inr ticks" and "cache s directory = Some it"
    and "to_size_t ticks \<le> lastModified it"
  shows "getDiskSpaceUsage fs fs' s directory = (Inr (diskSpaceUsage it), s)"
  using assms by (simp add: getDiskSpaceUsage_def Let_def)

text \<open>
  With no entry, or an entry whose stored value is below the converted current tick
  count, the walk runs; when it returns, its size is stored with the converted
  count read at line 38 and returned.
\<close>

lemma getDiskSpaceUsage_slow_path:
  assumes "last_write_time fs directory = Inr ticks"
    and "cache s directory = None
       \<or> (\<exists>it. cache s directory = Some it \<and> lastModified it < to_size_t ticks)"
    and "calculateDiskSpace fs' directory = Inr sz"
  shows "getDiskSpaceUsage fs fs' s directory =
           (Inr sz,
            s\<lparr>cache := (cache s)(directory \<mapsto>
                 \<lparr>diskSpaceUsage = sz, lastModified = to_size_t ticks\<rparr>),
              walks := Suc (walks s)\<rparr>)"
  using assms by (auto simp add: getDiskSpaceUsage_def Let_def)

text \<open>
  For an entry observed at tick \<open>seen\<close> and a current tick \<open>now\<close>, both 64-bit and
  on one side of the epoch, the code follows the order of the timestamps: the
  cached size when \<open>now \<le> seen\<close>, a walk exactly when \<open>seen < now\<close>.
\<close>

lemma getDiskSpaceUsage_same_side_of_epoch:
  assumes "last_write_time fs directory = Inr now" and "cache s directory = Some it"
    and "lastModified it = to_size_t seen"
    and "- (2 ^ 63) \<le> now" and "now < 2 ^ 63" and "- (2 ^ 63) \<le> seen" and "seen < 2 ^ 63"
    and "(now < 0) = (seen < 0)"
  shows "(now \<le> seen \<longrightarrow> getDiskSpaceUsage fs fs' s directory = (Inr (diskSpaceUsage it), s))
       \<and> ((walks (snd (getDiskSpaceUsage fs fs' s directory)) \<noteq> walks s) = (seen < now))"
proof -
  have "(to_size_t now \<le> to_size_t seen) = (now \<le> seen)"
    using assms(4-8) by (rule to_size_t_same_side)
  then show ?thesis
    using assms(1-3) by (auto simp add: getDiskSpaceUsage_def Let_def split: sum.splits)
qed

text \<open>
  C1 fails on the code when the two timestamps lie on either side of the clock's
  epoch.  A first call at tick 5 caches 400 bytes.  The directory's timestamp then
  reads tick \<open>-1\<close>, which is older than the observed 5, so by C1 the cached 400
  comes back with no walk and no change to the cache.  Line 38 converts \<open>-1\<close> to
  \<open>2 ^ 64 - 1\<close>, line 45 finds it above 5, and the code walks: it returns the 42
  bytes found now, overwrites the entry and has walked twice.
\<close>

theorem getDiskSpaceUsage_walks_for_older_timestamp_across_epoch:
  "getDiskSpaceUsage (single ''d'' (Some 5) scenario_tree) (single ''d'' (Some 5) scenario_tree)
       initial_state ''d'' = (Inr 400, seeded ''d'' 400 5 1)
   \<and> (- 1 :: int) \<le> 5
   \<and> getDiskSpaceUsage (single ''d'' (Some (- 1)) mixed_tree) (single ''d'' (Some (- 1)) mixed_tree)
       (seeded ''d'' 400 5 1) ''d'' = (Inr 42, seeded ''d'' 42 18446744073709551615 2)"
  by (simp add: call_simps)

text \<open>
  C2 fails on the code across the epoch as well.  A first call at tick \<open>-1\<close>
  caches 400 bytes under the converted \<open>2 ^ 64 - 1\<close>.  The directory is then
  modified and its timestamp reads tick 5: the entry is strictly older, so by C2
  the walk runs, 42 is stored with the new timestamp and returned.  Line 45 finds
  5 below the stored value and the code returns the cached 400 without a walk and
  leaves the entry as it is.
\<close>

theorem getDiskSpaceUsage_keeps_stale_size_across_epoch:
  "getDiskSpaceUsage (single ''d'' (Some (- 1)) scenario_tree)
       (single ''d'' (Some (- 1)) scenario_tree) initial_state ''d''
     = (Inr 400, seeded ''d'' 400 18446744073709551615 1)
   \<and> (- 1 :: int) < 5
   \<and> calculateDiskSpace (single ''d'' (Some 5) mixed_tree) ''d'' = Inr 42
   \<and> getDiskSpaceUsage (single ''d'' (Some 5) mixed_tree) (single ''d'' (Some 5) mixed_tree)
       (seeded ''d'' 400 18446744073709551615 1) ''d''
     = (Inr 400, seeded ''d'' 400 18446744073709551615 1)"
  by (simp add: call_simps)

text \<open>
  C3: when the walk of a \<^verbatim>\<open>getDiskSpaceUsage\<close> call fails, the error reaches the
  caller and the cache is exactly what it was before the call: a stale entry for
  the path keeps its size and its observed timestamp.
\<close>

theorem getDiskSpaceUsage_failed_walk_keeps_cache:
  assumes "last_write_time fs directory = Inr t"
    and "cache s directory = None
       \<or> (\<exists>it. cache s directory = Some it \<and> lastModified it < to_size_t t)"
    and "calculateDiskSpace fs' directory = Inl e"
  shows "fst (getDiskSpaceUsage fs fs' s directory) = Inl e
       \<and> cache (snd (getDiskSpaceUsage fs fs' s directory)) = cache s"
  using assms by (auto simp add: getDiskSpaceUsage_def Let_def)

text \<open>
  C3 on a stale entry (7 bytes observed at 5) and a directory that has since got a
  subdirectory that cannot be listed: the call fails and the entry is still there.
\<close>

theorem getDiskSpaceUsage_failed_walk_keeps_cache_witness:
  "fst (getDiskSpaceUsage (single ''d'' (Some 6) locked_tree) (single ''d'' (Some 6) locked_tree)
       (seeded ''d'' 7 5 3) ''d'') = Inl filesystem_error
   \<and> cache (snd (getDiskSpaceUsage (single ''d'' (Some 6) locked_tree)
       (single ''d'' (Some 6) locked_tree) (seeded ''d'' 7 5 3) ''d'')) ''d''
       = Some \<lparr>diskSpaceUsage = 7, lastModified = 5\<rparr>"
proof -
  have stale: "cache (seeded ''d'' 7 5 3) ''d'' = None
      \<or> (\<exists>it. cache (seeded ''d'' 7 5 3) ''d'' = Some it \<and> lastModified it < to_size_t 6)"
    by (simp add: seeded_def to_size_t_numeral)
  show ?thesis
    using getDiskSpaceUsage_failed_walk_keeps_cache [OF stat_single stale walk_locked]
    by (simp add: seeded_def)
qed

text \<open>
  C5: for a path that does not exist, or whose modification timestamp cannot be
  read, \<^verbatim>\<open>getDiskSpaceUsage\<close> fails with the filesystem error and changes nothing,
  whatever the cache holds for the path: a cached value is never returned instead.
\<close>

theorem getDiskSpaceUsage_fails_without_timestamp:
  assumes "fs directory = None \<or> (\<exists>obj. fs directory = Some obj \<and> mtime obj = None)"
  shows "getDiskSpaceUsage fs fs' s directory = (Inl filesystem_error, s)"
  using assms by (auto simp add: getDiskSpaceUsage_def Let_def last_write_time_def)

text \<open>
  C5 with an entry for the path in the cache: on a filesystem without the path, and
  on one where the path is there but its timestamp cannot be read.
\<close>

theorem getDiskSpaceUsage_fails_without_timestamp_witness:
  "getDiskSpaceUsage Map.empty (single ''d'' (Some 6) scenario_tree) (seeded ''d'' 400 5 3) ''d''
     = (Inl filesystem_error, seeded ''d'' 400 5 3)
   \<and> getDiskSpaceUsage (single ''d'' None scenario_tree) (single ''d'' None scenario_tree)
       (seeded ''d'' 400 5 3) ''d'' = (Inl filesystem_error, seeded ''d'' 400 5 3)"
proof -
  have missing: "(Map.empty :: filesystem) ''d'' = None
      \<or> (\<exists>obj. (Map.empty :: filesystem) ''d'' = Some obj \<and> mtime obj = None)"
    by simp
  have unread: "single ''d'' None scenario_tree ''d'' = None
      \<or> (\<exists>obj. single ''d'' None scenario_tree ''d'' = Some obj \<and> mtime obj = None)"
    by (simp add: single_def)
  show ?thesis
    using getDiskSpaceUsage_fails_without_timestamp [of Map.empty "''d''", OF missing]
      getDiskSpaceUsage_fails_without_timestamp
        [of "single ''d'' None scenario_tree" "''d''", OF unread]
    by simp
qed

text \<open>
  C9: after every \<^verbatim>\<open>getDiskSpaceUsage\<close> call that returns a size, the cache holds
  an entry for the path and the entry's size is the returned one, on the fast
  path, on a first query and on the overwrite of a stale entry alike.
\<close>

theorem getDiskSpaceUsage_returns_what_it_caches:
  assumes "getDiskSpaceUsage fs fs' s directory = (Inr v, s')"
  shows "\<exists>it. cache s' directory = Some it \<and> diskSpaceUsage it = v"
  using assms
  by (auto simp add: getDiskSpaceUsage_def Let_def split: sum.splits option.splits if_splits)

lemma call_fresh:
  "getDiskSpaceUsage (single ''d'' (Some 5) scenario_tree) (single ''d'' (Some 5) scenario_tree)
     (seeded ''d'' 7 5 3) ''d'' = (Inr 7, seeded ''d'' 7 5 3)"
  by (simp add: call_simps)

lemma call_first:
  "getDiskSpaceUsage (single ''d'' (Some 5) scenario_tree) (single ''d'' (Some 5) scenario_tree)
     initial_state ''d'' = (Inr 400, seeded ''d'' 400 5 1)"
  by (simp add: call_simps)

lemma call_stale:
  "getDiskSpaceUsage (single ''d'' (Some 6) scenario_tree) (single ''d'' (Some 6) scenario_tree)
     (seeded ''d'' 7 5 3) ''d'' = (Inr 400, seeded ''d'' 400 6 4)"
  by (simp add: call_simps)

text \<open>C9 on the three paths: fast path, first query, overwrite of a stale entry.\<close>

theorem getDiskSpaceUsage_returns_what_it_caches_witness:
  "getDiskSpaceUsage (single ''d'' (Some 5) scenario_tree) (single ''d'' (Some 5) scenario_tree)
       (seeded ''d'' 7 5 3) ''d'' = (Inr 7, seeded ''d'' 7 5 3)
   \<and> (\<exists>it. cache (seeded ''d'' 7 5 3) ''d'' = Some it \<and> diskSpaceUsage it = 7)
   \<and> getDiskSpaceUsage (single ''d'' (Some 5) scenario_tree) (single ''d'' (Some 5) scenario_tree)
       initial_state ''d'' = (Inr 400, seeded ''d'' 400 5 1)
   \<and> (\<exists>it. cache (seeded ''d'' 400 5 1) ''d'' = Some it \<and> diskSpaceUsage it = 400)
   \<and> getDiskSpaceUsage (single ''d'' (Some 6) scenario_tree) (single ''d'' (Some 6) scenario_tree)
       (seeded ''d'' 7 5 3) ''d'' = (Inr 400, seeded ''d'' 400 6 4)
   \<and> (\<exists>it. cache (seeded ''d'' 400 6 4) ''d'' = Some it \<and> diskSpaceUsage it = 400)"
  using call_fresh call_first call_stale
    getDiskSpaceUsage_returns_what_it_caches [OF call_fresh]
    getDiskSpaceUsage_returns_what_it_caches [OF call_first]
    getDiskSpaceUsage_returns_what_it_caches [OF call_stale]
  by (intro conjI)

text \<open>
  A call that walks and returns stores the converted tick count it read at the
  start, before the walk, whatever the filesystem has become by the time of the
  walk; a later call walks again when the converted count it reads is above the
  stored one.
\<close>

lemma getDiskSpaceUsage_stores_count_read_before_walk:
  assumes "getDiskSpaceUsage fs fs' s directory = (Inr v, s1)" and "walks s1 = Suc (walks s)"
  shows "\<exists>t. last_write_time fs directory = Inr t
           \<and> cache s1 directory = Some \<lparr>diskSpaceUsage = v, lastModified = to_size_t t\<rparr>
           \<and> (\<forall>fs2 fs2' t2. last_write_time fs2 directory = Inr t2 \<and> to_size_t t < to_size_t t2 \<longrightarrow>
                 fst (getDiskSpaceUsage fs2 fs2' s1 directory) = calculateDiskSpace fs2' directory
               \<and> walks (snd (getDiskSpaceUsage fs2 fs2' s1 directory)) = Suc (walks s1))"
  using assms
  by (auto simp add: getDiskSpaceUsage_def Let_def split: sum.splits option.splits if_splits)

text \<open>
  C10 fails on the code when the timestamp advances across the clock's epoch
  during the walk.  The call reads tick \<open>-1\<close> at the start; while it walks, the
  directory is modified and its timestamp advances to tick 5.  The entry stored is
  the 42 bytes the walk saw with the timestamp read before the walk, as C10 says,
  but converted to \<open>2 ^ 64 - 1\<close>.  By C10 the entry is stale and the next call
  recomputes.  The next call, on the filesystem as the walk left it, reads tick 5,
  finds it below the stored value and returns the cached size: the state is
  unchanged, the walk count still 1, although the walk would have failed this time.
\<close>

theorem getDiskSpaceUsage_misses_advance_across_epoch:
  "getDiskSpaceUsage (single ''d'' (Some (- 1)) scenario_tree) (single ''d'' (Some 5) mixed_tree)
       initial_state ''d'' = (Inr 42, seeded ''d'' 42 18446744073709551615 1)
   \<and> (- 1 :: int) < 5
   \<and> calculateDiskSpace (single ''d'' (Some 5) locked_tree) ''d'' = Inl filesystem_error
   \<and> getDiskSpaceUsage (single ''d'' (Some 5) mixed_tree) (single ''d'' (Some 5) locked_tree)
       (seeded ''d'' 42 18446744073709551615 1) ''d''
     = (Inr 42, seeded ''d'' 42 18446744073709551615 1)"
  by (simp add: call_simps)

section \<open>Repeated calls\<close>

lemma getDiskSpaceUsage_again:
  assumes "getDiskSpaceUsage fs fs s directory = (r, s')"
  shows "fst (getDiskSpaceUsage fs fs s' directory) = r"
  using assms
  by (auto simp add: getDiskSpaceUsage_def Let_def split: sum.splits option.splits if_splits)

text \<open>
  C6: while the filesystem, the directory's modification timestamp included, stays
  as it is, every one of any number of successive \<^verbatim>\<open>getDiskSpaceUsage\<close> calls on a
  directory returns what the first call returns.
\<close>

theorem successive_calls_agree_with_first:
  "successive_calls n fs s directory = replicate n (fst (getDiskSpaceUsage fs fs s directory))"
proof (induction n arbitrary: s)
  case 0
  then show ?case by simp
next
  case (Suc n)
  obtain r s' where call: "getDiskSpaceUsage fs fs s directory = (r, s')"
    by (cases "getDiskSpaceUsage fs fs s directory")
  have "successive_calls n fs s' directory = replicate n r"
    using Suc.IH [of s'] getDiskSpaceUsage_again [OF call] by simp
  then show ?case using call by simp
qed

text \<open>C6 on the scenario directory, starting from the empty cache: three calls, 400 each.\<close>

theorem successive_calls_agree_with_first_witness:
  "successive_calls 3 (single ''d'' (Some 5) scenario_tree) initial_state ''d''
     = [Inr 400, Inr 400, Inr 400]"
  using successive_calls_agree_with_first
    [of 3 "single ''d'' (Some 5) scenario_tree" initial_state "''d''"]
  by (simp add: call_first numeral_3_eq_3)

section \<open>The scenario of the specification\<close>

text \<open>
  C7: for a directory that holds, in any order and under any names, regular files
  of 100, 250 and 0 bytes and one subdirectory holding a regular file of 50
  bytes, the walk yields 400 and a \<^verbatim>\<open>getDiskSpaceUsage\<close> call that finds no entry
  for the directory in the cache returns 400.
\<close>

theorem scenario_returns_400:
  assumes "fs' directory = Some obj" and "content obj = Directory (Some es)"
    and "mset (map snd es) = {#Regular (Some 100), Regular (Some 250), Regular (Some 0),
           Directory (Some [(name, Regular (Some 50))])#}"
    and "last_write_time fs directory = Inr t" and "cache s directory = None"
  shows "calculateDiskSpace fs' directory = Inr 400
       \<and> fst (getDiskSpaceUsage fs fs' s directory) = Inr 400"
proof -
  have "readable_entries es" using assms(3) by (simp add: readable_entries_mset)
  moreover have "followed_bytes_entries es = 400"
    using assms(3) by (simp add: followed_bytes_entries_mset)
  ultimately have "calculateDiskSpace fs' directory = Inr 400"
    using calculateDiskSpace_readable [of fs' directory obj es] assms(1,2) by simp
  then show ?thesis using assms(4,5) by (simp add: getDiskSpaceUsage_def Let_def)
qed

text \<open>C7 on the scenario directory, first query of the program.\<close>

theorem scenario_returns_400_witness:
  "calculateDiskSpace (single ''d'' (Some 5) scenario_tree) ''d'' = Inr 400
   \<and> fst (getDiskSpaceUsage (single ''d'' (Some 5) scenario_tree)
       (single ''d'' (Some 5) scenario_tree) initial_state ''d'') = Inr 400"
proof -
  let ?es = "[(''a'', Regular (Some 100)), (''b'', Regular (Some 250)), (''c'', Regular (Some 0)),
        (''sub'', Directory (Some [(''d'', Regular (Some 50))]))]"
  have a: "single ''d'' (Some 5) scenario_tree ''d''
      = Some \<lparr>mtime = Some 5, content = Directory (Some ?es)\<rparr>"
    by (simp add: single_def scenario_tree_def)
  have b: "content \<lparr>mtime = Some 5, content = Directory (Some ?es)\<rparr> = Directory (Some ?es)"
    by simp
  have c: "mset (map snd ?es) = {#Regular (Some 100), Regular (Some 250), Regular (Some 0),
           Directory (Some [(''d'', Regular (Some 50))])#}"
    by simp
  have d: "cache initial_state ''d'' = None"
    by (simp add: initial_state_def)
  show ?thesis
    using scenario_returns_400
      [of "single ''d'' (Some 5) scenario_tree" "''d''", OF a b c stat_single d]
    by simp
qed

section \<open>The command line\<close>

text \<open>
  C8: invoked with no directory argument (the program's name is all of
  \<^verbatim>\<open>argv\<close>), the program writes the usage line to standard error and exits with
  status 1, without a word on standard output.
\<close>

theorem main_without_directory_prints_usage:
  "main stol snap1 snap2 [prog] =
     (Return 1, [Cerr ''Usage: '', Cerr prog, Cerr '' <directory_path>\<newline>''])"
  by (simp add: main_def)

text \<open>C8 for a program started as \<^verbatim>\<open>./du\<close>.\<close>

theorem main_without_directory_prints_usage_witness:
  "main (\<lambda>a. None) (Map.empty, Map.empty) (Map.empty, Map.empty) [''./du''] =
     (Return 1, [Cerr ''Usage: '', Cerr ''./du'', Cerr '' <directory_path>\<newline>''])"
  using main_without_directory_prints_usage
    [of "\<lambda>a. None" "(Map.empty, Map.empty)" "(Map.empty, Map.empty)" "''./du''"]
  by simp

end
